theory Spec2Isabelle
  imports Complex_Main "HOL-Library.Word"
begin

section \<open>Data model of main.c\<close>

text \<open>
  The C types of the source: \<open>unsigned char\<close> is 8 bits, \<open>unsigned short\<close> 16 bits and
  \<open>unsigned long\<close> 32 bits (the comment above \<open>compensateAirData\<close> fixes the last two);
  \<open>int\<close> is taken as 32 bits, read as two's complement where the source compares it.
\<close>

definition FAULT_NONE :: "32 word" where "FAULT_NONE = 0"
definition FAULT_OVERRUN :: "32 word" where "FAULT_OVERRUN = 1"
definition FAULT_AIRFILTER :: "32 word" where "FAULT_AIRFILTER = 2"
definition FAULT_COMPENSATE_DIV :: "32 word" where "FAULT_COMPENSATE_DIV = 3"
definition FAULT_COMPENSATE_RANGE :: "32 word" where "FAULT_COMPENSATE_RANGE = 4"

record AirData_t =
  errorWord :: "8 word"
  tempC :: "16 word"
  speed :: "32 word"

text \<open>
  The three \<open>AirData_t\<close> objects of the program: the global \<open>RawAirData\<close> and the two
  locals of \<open>main\<close>. The functions take pointers to them, so memory is a store from
  object to value and a pointer is the name of an object; two pointer arguments may
  name the same object.
\<close>

datatype obj = RawAirData | FilteredAirData | CompensatedAirData

text \<open>
  The state: the store, the global \<open>AirDataProcessed\<close>, the mask of the timer interrupt
  T1 (what \<open>DI_T1\<close> and \<open>EI_T1\<close> switch), the locals \<open>err\<close> and \<open>FilterErrorCount\<close> of
  \<open>main\<close>, and the list of codes \<open>Fault\<close> has been called with, oldest first. The body
  of \<open>Fault\<close> is empty in the source; the list records its calls so that they can be
  counted.
\<close>

record state =
  mem :: "obj \<Rightarrow> AirData_t"
  AirDataProcessed :: "32 word"
  T1_enabled :: bool
  faults :: "32 word list"
  err :: "32 word"
  FilterErrorCount :: "32 word"

definition set_errorWord :: "obj \<Rightarrow> 8 word \<Rightarrow> state \<Rightarrow> state" where
  "set_errorWord p v s = s\<lparr>mem := (mem s)(p := (mem s p)\<lparr>errorWord := v\<rparr>)\<rparr>"

definition set_tempC :: "obj \<Rightarrow> 16 word \<Rightarrow> state \<Rightarrow> state" where
  "set_tempC p v s = s\<lparr>mem := (mem s)(p := (mem s p)\<lparr>tempC := v\<rparr>)\<rparr>"

definition set_speed :: "obj \<Rightarrow> 32 word \<Rightarrow> state \<Rightarrow> state" where
  "set_speed p v s = s\<lparr>mem := (mem s)(p := (mem s p)\<lparr>speed := v\<rparr>)\<rparr>"

definition DI_T1 :: "state \<Rightarrow> state" where
  "DI_T1 s = s\<lparr>T1_enabled := False\<rparr>"

definition EI_T1 :: "state \<Rightarrow> state" where
  "EI_T1 s = s\<lparr>T1_enabled := True\<rparr>"

definition Fault :: "32 word \<Rightarrow> state \<Rightarrow> state" where
  "Fault faultCode s = s\<lparr>faults := faults s @ [faultCode]\<rparr>"

section \<open>filterAirData\<close>

text \<open>
  \<open>out->tempC = in->tempC * AIR_DATA_SCALE\<close> is a product of doubles: the 16-bit
  temperature converts to a double without loss, the constant is the double nearest to
  1.00325, the product is rounded to a double, and the assignment drops the fraction.
  Doubles are taken as IEEE 754 binary64 with rounding to nearest, ties to even. The
  constant is \<open>AIR_DATA_SCALE / 2 ^ 52\<close> for the 53-bit significand below, so the exact
  product of a temperature \<open>x\<close> is the integer \<open>x * AIR_DATA_SCALE\<close> counted in units of
  \<open>2 ^ -52\<close>, and \<open>round_binary64\<close> rounds such an integer to 53 significant bits.
\<close>

definition AIR_DATA_SCALE :: nat where
  "AIR_DATA_SCALE = 4518236326159450"

text \<open>The number of binary digits of a natural number.\<close>

fun bit_length :: "nat \<Rightarrow> nat" where
  "bit_length n = (if n = 0 then 0 else Suc (bit_length (n div 2)))"

declare bit_length.simps [simp del]

text \<open>
  Rounding to 53 significant bits: the \<open>e\<close> low bits beyond the 53 are dropped, and the
  kept part goes up by one when the dropped part is more than half of \<open>2 ^ e\<close>, or
  exactly half with the kept part odd.
\<close>

definition round_binary64 :: "nat \<Rightarrow> nat" where
  "round_binary64 p =
     (let e = bit_length p - 53
      in if e = 0 then p
         else
           let q = p div 2 ^ e; r = p mod 2 ^ e
           in (if 2 ^ e < 2 * r \<or> (2 * r = 2 ^ e \<and> odd q) then q + 1 else q) * 2 ^ e)"

text \<open>The integer part of the rounded product.\<close>

definition scale_tempC :: "16 word \<Rightarrow> nat" where
  "scale_tempC t = round_binary64 (unat t * AIR_DATA_SCALE) div 2 ^ 52"

text \<open>
  The integer part can exceed 65535. ISO C leaves the conversion of such a double to
  \<open>unsigned short\<close> undefined; the model takes what the usual code generators give, the
  low 16 bits of the integer part (\<open>of_nat\<close> into \<open>16 word\<close>).

  The statements of \<open>filterAirData\<close> in source order. The return value is read from
  \<open>out->errorWord\<close> after the copy.
\<close>

definition filterAirData :: "obj \<Rightarrow> obj \<Rightarrow> state \<Rightarrow> 32 word \<times> state" where
  "filterAirData inp outp s =
     (let s1 = DI_T1 s;
          s2 = set_errorWord outp (errorWord (mem s1 inp)) s1;
          s3 = set_tempC outp (of_nat (scale_tempC (tempC (mem s2 inp)))) s2;
          s4 = set_speed outp (speed (mem s3 inp)) s3;
          s5 = s4\<lparr>AirDataProcessed := 1\<rparr>;
          s6 = EI_T1 s5
      in (if errorWord (mem s6 outp) \<noteq> 0 then FAULT_AIRFILTER else 0, s6))"

section \<open>compensateAirData\<close>

text \<open>
  The division is done in \<open>unsigned long\<close>: \<open>in->tempC\<close> is converted to 32 bits first.
  The source writes the last copy as \<open>out->errWord = in->errWord\<close>; the structure has
  no such field, and the comment beside it names the error word, so the copy is taken
  on \<open>errorWord\<close>.
\<close>

definition compensateAirData :: "obj \<Rightarrow> obj \<Rightarrow> state \<Rightarrow> 32 word \<times> state" where
  "compensateAirData inp outp s =
     (if tempC (mem s inp) = 0 then (FAULT_COMPENSATE_DIV, s)
      else
        let temp = speed (mem s inp) div ucast (tempC (mem s inp)) :: 32 word
        in if 65535 < temp then (FAULT_COMPENSATE_RANGE, s)
           else
             let s1 = set_tempC outp (ucast temp) s;
                 s2 = set_speed outp (speed (mem s1 inp)) s1;
                 s3 = set_errorWord outp (errorWord (mem s2 inp)) s2
             in (0, s3))"

section \<open>Tick_10ms\<close>

text \<open>
  The interrupt routine. \<open>ReadPort8\<close>, \<open>ReadPort16\<close> and \<open>ReadPort32\<close> read the
  hardware; the three values they return on one invocation are the parameters
  \<open>port8\<close>, \<open>port16\<close> and \<open>port32\<close>. \<open>Fault\<close> returns to its caller, so the reads
  follow in both branches.
\<close>

definition Tick_10ms :: "8 word \<Rightarrow> 16 word \<Rightarrow> 32 word \<Rightarrow> state \<Rightarrow> state" where
  "Tick_10ms port8 port16 port32 s =
     (let s1 = (if AirDataProcessed s \<noteq> 1 then Fault FAULT_OVERRUN s
                else s\<lparr>AirDataProcessed := 0\<rparr>);
          s2 = set_errorWord RawAirData port8 s1;
          s3 = set_tempC RawAirData port16 s2;
          s4 = set_speed RawAirData port32 s3
      in s4)"

text \<open>
  The same statements, keeping the state after each one: after the \<open>if\<close>, and after
  each of the three assignments.
\<close>

definition Tick_10ms_trace :: "8 word \<Rightarrow> 16 word \<Rightarrow> 32 word \<Rightarrow> state \<Rightarrow> state list" where
  "Tick_10ms_trace port8 port16 port32 s =
     (let s1 = (if AirDataProcessed s \<noteq> 1 then Fault FAULT_OVERRUN s
                else s\<lparr>AirDataProcessed := 0\<rparr>);
          s2 = set_errorWord RawAirData port8 s1;
          s3 = set_tempC RawAirData port16 s2;
          s4 = set_speed RawAirData port32 s3
      in [s1, s2, s3, s4])"

text \<open>Successive invocations with nothing run in between, one triple of port values each.\<close>

fun ticks :: "(8 word \<times> 16 word \<times> 32 word) list \<Rightarrow> state \<Rightarrow> state" where
  "ticks [] s = s"
| "ticks ((port8, port16, port32) # rest) s = ticks rest (Tick_10ms port8 port16 port32 s)"

section \<open>The loop of main\<close>

text \<open>
  One pass of \<open>while(1)\<close> in two parts: the call of the filter with the count of its
  errors, and the call of the compensator with its fault.
  \<open>FilterErrorCount > 5\<close> compares signed integers. The increment wraps around in
  the model; in C the overflow of a signed \<open>int\<close> is undefined, and it takes \<open>2 ^ 31\<close>
  filter errors in a row to reach it.
\<close>

definition loop_filter :: "state \<Rightarrow> state" where
  "loop_filter s =
     (let (e, s1) = filterAirData RawAirData FilteredAirData s;
          s2 = s1\<lparr>err := e\<rparr>
      in if err s2 \<noteq> 0
         then
           let s3 = s2\<lparr>FilterErrorCount := FilterErrorCount s2 + 1\<rparr>
           in if 5 <s FilterErrorCount s3 then Fault FAULT_AIRFILTER s3 else s3
         else s2\<lparr>FilterErrorCount := 0\<rparr>)"

definition loop_compensate :: "state \<Rightarrow> state" where
  "loop_compensate s =
     (let (e, s1) = compensateAirData FilteredAirData CompensatedAirData s;
          s2 = s1\<lparr>err := e\<rparr>
      in if err s2 \<noteq> 0 then Fault (err s2) s2 else s2)"

definition loop_body :: "state \<Rightarrow> state" where
  "loop_body s = loop_compensate (loop_filter s)"

text \<open>
  The loop never exits, so a run is any finite number of passes. The timer interrupt is
  masked while the filter reads the raw sample; a schedule lists, for each pass, the port
  values of the interrupts taken since the filter call of the pass before (none, one or
  several). An interrupt taken after that call writes only the raw sample, the flag and
  the list of faults, and the rest of the pass reads none of the first two, so it is
  listed with the next pass. \<open>run\<close> is the state after the passes of a schedule and
  \<open>filter_results\<close> the values the filter returned in them.
\<close>

fun run :: "(8 word \<times> 16 word \<times> 32 word) list list \<Rightarrow> state \<Rightarrow> state" where
  "run [] s = s"
| "run (irqs # rest) s = run rest (loop_body (ticks irqs s))"

fun filter_results :: "(8 word \<times> 16 word \<times> 32 word) list list \<Rightarrow> state \<Rightarrow> 32 word list" where
  "filter_results [] s = []"
| "filter_results (irqs # rest) s =
     err (loop_filter (ticks irqs s)) # filter_results rest (loop_body (ticks irqs s))"

text \<open>
  The policy of lines 200 to 205 on its own: how many times \<open>main\<close> calls
  \<open>Fault(FAULT_AIRFILTER)\<close> over passes in which the filter returned the values
  \<open>es\<close>, starting with \<open>FilterErrorCount = c\<close>.
\<close>

fun reports :: "32 word list \<Rightarrow> 32 word \<Rightarrow> nat" where
  "reports [] c = 0"
| "reports (e # es) c =
     (if e \<noteq> 0 then (if 5 <s c + 1 then 1 else 0) + reports es (c + 1) else reports es 0)"

text \<open>The state \<open>main\<close> starts in: the initialisers of the globals and of the locals.\<close>

definition initial_state :: state where
  "initial_state =
     \<lparr>mem = (\<lambda>p. case p of
          RawAirData \<Rightarrow> \<lparr>errorWord = 1, tempC = 1000, speed = 100000\<rparr>
        | FilteredAirData \<Rightarrow> \<lparr>errorWord = 0, tempC = 0, speed = 0\<rparr>
        | CompensatedAirData \<Rightarrow> \<lparr>errorWord = 1, tempC = 1000, speed = 1000000\<rparr>),
      AirDataProcessed = 1, T1_enabled = True, faults = [], err = 0,
      FilterErrorCount = 0\<rparr>"

section \<open>Facts about the store and the division\<close>

lemma unat_widen:
  "unat (ucast (t :: 16 word) :: 32 word) = unat t"
proof -
  have "unat t < 2 ^ 16"
    using unsigned_less [of t] by simp
  then have "unat t < 2 ^ 32"
    by simp
  then show ?thesis
    by (simp add: unsigned_ucast_eq take_bit_nat_eq_self)
qed

lemma quotient_as_nat:
  "unat (a div ucast (t :: 16 word) :: 32 word) = unat a div unat t"
  by (simp add: unat_div unat_widen)

lemma range_check_as_nat:
  "(65535 < (a div ucast (t :: 16 word) :: 32 word)) = (65535 < unat a div unat t)"
  by (simp add: word_less_nat_alt quotient_as_nat)

lemma narrow_quotient:
  assumes "unat a div unat (t :: 16 word) \<le> 65535"
  shows "(ucast (a div ucast t :: 32 word) :: 16 word) = of_nat (unat a div unat t)"
    and "unat (of_nat (unat a div unat t) :: 16 word) = unat a div unat t"
proof -
  have "(ucast (a div ucast t :: 32 word) :: 16 word)
          = of_nat (unat (a div ucast t :: 32 word))"
    by simp
  then show "(ucast (a div ucast t :: 32 word) :: 16 word) = of_nat (unat a div unat t)"
    by (simp only: quotient_as_nat)
  show "unat (of_nat (unat a div unat t) :: 16 word) = unat a div unat t"
    using assms by (simp add: unat_of_nat)
qed

section \<open>Facts about the scaling\<close>

text \<open>The constant is a 53-bit significand, within half a unit in the last place of 1.00325.\<close>

lemma AIR_DATA_SCALE_nearest:
  "\<bar>real AIR_DATA_SCALE / 2 ^ 52 - 1.00325\<bar> \<le> 1 / 2 ^ 53"
  "2 ^ 52 \<le> AIR_DATA_SCALE" "AIR_DATA_SCALE < 2 ^ 53"
  by (simp_all add: AIR_DATA_SCALE_def)

lemma bit_length_le: "p < 2 ^ k \<Longrightarrow> bit_length p \<le> k"
proof (induction k arbitrary: p)
  case 0
  then show ?case by (simp add: bit_length.simps)
next
  case (Suc k)
  then have "p div 2 < 2 ^ k" by simp
  then have "bit_length (p div 2) \<le> k" by (rule Suc.IH)
  then show ?case by (subst bit_length.simps) simp
qed

lemma bit_length_eq: "2 ^ k \<le> p \<Longrightarrow> p < 2 ^ Suc k \<Longrightarrow> bit_length p = Suc k"
proof (induction k arbitrary: p)
  case 0
  then have "p = 1" by simp
  then show ?case by (simp add: bit_length.simps)
next
  case (Suc k)
  from Suc.prems have "2 ^ k \<le> p div 2" "p div 2 < 2 ^ Suc k"
    by simp_all
  then have "bit_length (p div 2) = Suc k"
    by (rule Suc.IH)
  moreover have "(0::nat) < 2 ^ Suc k"
    by simp
  with Suc.prems(1) have "p \<noteq> 0"
    by linarith
  ultimately show ?case
    by (subst bit_length.simps) simp
qed

text \<open>Rounding a number whose bit length is known: what evaluation at a numeral needs.\<close>

lemma round_binary64_at:
  assumes "2 ^ (52 + e) \<le> p" and "p < 2 ^ (53 + e)" and "0 < e"
  shows "round_binary64 p =
    (if 2 ^ e < 2 * (p mod 2 ^ e) \<or> (2 * (p mod 2 ^ e) = 2 ^ e \<and> odd (p div 2 ^ e))
     then p div 2 ^ e + 1 else p div 2 ^ e) * 2 ^ e"
proof -
  have "bit_length p = Suc (52 + e)"
    using assms(1,2) by (intro bit_length_eq) simp_all
  then have "bit_length p - 53 = e"
    by simp
  then show ?thesis
    using assms(3) by (simp add: round_binary64_def Let_def)
qed

lemma round_binary64_0: "round_binary64 0 = 0"
  by (simp add: round_binary64_def bit_length.simps)

text \<open>Rounding moves a number by at most half of the weight of the last kept bit.\<close>

lemma round_error_pow:
  "2 * p \<le> 2 * round_binary64 p + 2 ^ (bit_length p - 53) \<and>
   2 * round_binary64 p \<le> 2 * p + 2 ^ (bit_length p - 53)"
proof (cases "bit_length p - 53 = 0")
  case True
  then show ?thesis by (simp add: round_binary64_def)
next
  case False
  define E :: nat where "E = 2 ^ (bit_length p - 53)"
  define q where "q = p div E"
  define r where "r = p mod E"
  have E: "0 < E" by (simp add: E_def)
  have p: "p = q * E + r" by (simp add: q_def r_def)
  have r: "r < E" using E by (simp add: r_def)
  have R: "round_binary64 p = (if E < 2 * r \<or> (2 * r = E \<and> odd q) then q + 1 else q) * E"
    using False by (simp add: round_binary64_def Let_def E_def q_def r_def)
  show ?thesis
    unfolding R E_def [symmetric] using p r by (auto simp: algebra_simps)
qed

lemma round_error:
  assumes "p < 2 ^ 69"
  shows "2 * p \<le> 2 * round_binary64 p + 65536" and "2 * round_binary64 p \<le> 2 * p + 65536"
proof -
  have "bit_length p \<le> 69" using assms by (rule bit_length_le)
  then have "bit_length p - 53 \<le> 16" by simp
  then have "(2::nat) ^ (bit_length p - 53) \<le> 2 ^ 16"
    by (rule power_increasing) simp
  then have E: "(2::nat) ^ (bit_length p - 53) \<le> 65536" by simp
  show "2 * p \<le> 2 * round_binary64 p + 65536" "2 * round_binary64 p \<le> 2 * p + 65536"
    using round_error_pow [of p] E by simp_all
qed

text \<open>
  A temperature \<open>x\<close> whose exact product \<open>x * 4013 / 4000\<close> is not an integer: the
  product is at least 1/4000 away from the integers around it, and the two roundings
  move it by less than that. \<open>4000 * AIR_DATA_SCALE = 4013 * 2 ^ 52 - 448\<close>.
\<close>

lemma scale_generic:
  assumes x: "x < 65536" and k: "4013 * x = 4000 * k + r" and r: "0 < r" "r < 4000"
  shows "round_binary64 (x * AIR_DATA_SCALE) div 2 ^ 52 = k"
proof -
  define p where "p = x * 4518236326159450"
  define R where "R = round_binary64 p"
  have "p < 2 ^ 69"
    using x by (simp add: p_def)
  then have e1: "2 * p \<le> 2 * R + 65536" and e2: "2 * R \<le> 2 * p + 65536"
    unfolding R_def by (rule round_error(1), rule round_error(2))
  have eq: "4000 * p + 448 * x = 18014398509481984000 * k + 4503599627370496 * r"
    using k by (simp add: p_def)
  have lo: "4503599627370496 * k \<le> R"
    using e1 x r(1) eq by linarith
  have "R < 4503599627370496 * k + 4503599627370496"
    using e2 x r(2) eq by linarith
  then have hi: "R < 4503599627370496 * Suc k"
    by simp
  have "R div 4503599627370496 = k"
    using lo hi by (rule div_nat_eqI)
  then show ?thesis
    by (simp add: R_def p_def AIR_DATA_SCALE_def)
qed

text \<open>
  The other temperatures are the multiples of 4000, where the exact product is an
  integer and the double below it would lose one: each of the 17 is evaluated.
\<close>

lemma scale_multiples:
  assumes "j \<le> 16"
  shows "round_binary64 (4000 * j * AIR_DATA_SCALE) div 2 ^ 52 = 4013 * j"
proof -
  have "j \<in> {0..<17}"
    using assms by simp
  then consider "j = 0" | "j = 1" | "j = 2" | "j = 3" | "j = 4" | "j = 5" | "j = 6"
    | "j = 7" | "j = 8" | "j = 9" | "j = 10" | "j = 11" | "j = 12" | "j = 13" | "j = 14"
    | "j = 15" | "j = 16"
    by (auto simp add: atLeastLessThan_nat_numeral)
  then show ?thesis
    by cases
      (simp_all add: AIR_DATA_SCALE_def round_binary64_0
         round_binary64_at [where e = 11] round_binary64_at [where e = 12]
         round_binary64_at [where e = 13] round_binary64_at [where e = 14]
         round_binary64_at [where e = 15])
qed

lemma multiple_of_4000:
  assumes a: "4013 * x = 4000 * k" and b: "x < 65536"
  shows "\<exists>j. j \<le> 16 \<and> x = 4000 * j \<and> k = 4013 * (j::nat)"
proof -
  define j where "j = 3077 * k - 3087 * x"
  have x: "x = 4000 * j"
    unfolding j_def using a by linarith
  then have "k = 4013 * j"
    using a by linarith
  moreover have "j \<le> 16"
    using x b by linarith
  ultimately show ?thesis
    using x by blast
qed

lemma scale_tempC_exact: "scale_tempC t = unat t * 4013 div 4000"
proof -
  define x where "x = unat t"
  define k where "k = 4013 * x div 4000"
  define r where "r = 4013 * x mod 4000"
  have x: "x < 65536"
    using unsigned_less [of t] by (simp add: x_def)
  have kr: "4013 * x = 4000 * k + r"
    by (simp add: k_def r_def)
  have rlt: "r < 4000"
    by (simp add: r_def)
  have "round_binary64 (x * AIR_DATA_SCALE) div 2 ^ 52 = k"
  proof (cases "r = 0")
    case True
    with kr have "4013 * x = 4000 * k"
      by simp
    then obtain j where j: "j \<le> 16" "x = 4000 * j" "k = 4013 * j"
      using x multiple_of_4000 by blast
    show ?thesis
      using scale_multiples [OF j(1)] by (simp add: j(2,3))
  next
    case False
    then have "0 < r"
      by simp
    then show ?thesis
      using x kr rlt by (intro scale_generic)
  qed
  then show ?thesis
    by (simp add: scale_tempC_def x_def k_def mult.commute)
qed

lemma floor_scale: "nat \<lfloor>real x * 1.00325\<rfloor> = x * 4013 div 4000"
proof -
  have "real x * 1.00325 = real (x * 4013) / real 4000"
    by simp
  then have "\<lfloor>real x * 1.00325\<rfloor> = \<lfloor>real (x * 4013) / real 4000\<rfloor>"
    by simp
  also have "\<dots> = int (x * 4013 div 4000)"
    by (rule floor_divide_of_nat_eq)
  finally show ?thesis
    by simp
qed

text \<open>The filter as one assignment to the state.\<close>

lemma filterAirData_eq:
  "filterAirData inp outp s =
     (if errorWord (mem s inp) \<noteq> 0 then FAULT_AIRFILTER else FAULT_NONE,
      s\<lparr>mem := (mem s)(outp :=
           \<lparr>errorWord = errorWord (mem s inp),
            tempC = of_nat (scale_tempC (tempC (mem s inp))),
            speed = speed (mem s inp)\<rparr>),
        AirDataProcessed := 1, T1_enabled := True\<rparr>)"
  by (cases "mem s outp"; cases "inp = outp")
     (simp_all add: filterAirData_def Let_def FAULT_NONE_def DI_T1_def EI_T1_def
        set_tempC_def set_speed_def set_errorWord_def)

section \<open>The compensator\<close>

text \<open>
  C2. When the temperature of the input sample is 0, \<open>compensateAirData\<close> returns
  \<open>FAULT_COMPENSATE_DIV\<close> and the state it returns is the state it was given: no field
  of the output sample (nor of anything else) is written.
\<close>

theorem compensate_divide_by_zero:
  "tempC (mem s inp) = 0 \<Longrightarrow> compensateAirData inp outp s = (FAULT_COMPENSATE_DIV, s)"
  by (simp add: compensateAirData_def)

theorem compensate_divide_by_zero_witness:
  "tempC (mem initial_state FilteredAirData) = 0 \<and>
   compensateAirData FilteredAirData CompensatedAirData initial_state
     = (FAULT_COMPENSATE_DIV, initial_state) \<and>
   mem initial_state CompensatedAirData
     = \<lparr>errorWord = 1, tempC = 1000, speed = 1000000\<rparr>"
proof -
  have h: "tempC (mem initial_state FilteredAirData) = 0"
    by (simp add: initial_state_def)
  show ?thesis
    using h compensate_divide_by_zero [OF h, of CompensatedAirData]
    by (simp add: initial_state_def)
qed

text \<open>
  C3. When the temperature of the input sample is not 0 and the quotient of speed by
  temperature, taken on the unbounded naturals, exceeds 65535, \<open>compensateAirData\<close>
  returns \<open>FAULT_COMPENSATE_RANGE\<close> and the state is unchanged. The instance that
  follows is the sample with speed 700000000 and temperature 1.
\<close>

theorem compensate_range_overflow:
  "tempC (mem s inp) \<noteq> 0 \<Longrightarrow>
   65535 < unat (speed (mem s inp)) div unat (tempC (mem s inp)) \<Longrightarrow>
   compensateAirData inp outp s = (FAULT_COMPENSATE_RANGE, s)"
  by (simp add: compensateAirData_def Let_def range_check_as_nat)

theorem compensate_range_overflow_witness:
  "tempC (mem (set_speed FilteredAirData 700000000
                 (set_tempC FilteredAirData 1 initial_state)) FilteredAirData) \<noteq> 0 \<and>
   65535 < unat (speed (mem (set_speed FilteredAirData 700000000
                 (set_tempC FilteredAirData 1 initial_state)) FilteredAirData))
           div unat (tempC (mem (set_speed FilteredAirData 700000000
                 (set_tempC FilteredAirData 1 initial_state)) FilteredAirData)) \<and>
   compensateAirData FilteredAirData CompensatedAirData
       (set_speed FilteredAirData 700000000 (set_tempC FilteredAirData 1 initial_state))
     = (FAULT_COMPENSATE_RANGE,
        set_speed FilteredAirData 700000000 (set_tempC FilteredAirData 1 initial_state))"
proof -
  let ?s = "set_speed FilteredAirData 700000000 (set_tempC FilteredAirData 1 initial_state)"
  have h1: "tempC (mem ?s FilteredAirData) \<noteq> 0"
    by (simp add: set_speed_def set_tempC_def)
  have h2: "65535 < unat (speed (mem ?s FilteredAirData)) div unat (tempC (mem ?s FilteredAirData))"
    by (simp add: set_speed_def set_tempC_def)
  show ?thesis
    using h1 h2 compensate_range_overflow [OF h1 h2, of CompensatedAirData] by simp
qed

text \<open>
  C4. When the temperature of the input sample is not 0 and the quotient of speed by
  temperature is at most 65535, \<open>compensateAirData\<close> returns 0 and the output sample
  becomes: the error word and the speed of the input, and the quotient as temperature
  (the 16-bit field holds it without loss). Nothing else in the state changes. The
  instance that follows is speed 100000 and temperature 1003, with quotient 99.
\<close>

theorem compensate_success:
  "tempC (mem s inp) \<noteq> 0 \<Longrightarrow>
   unat (speed (mem s inp)) div unat (tempC (mem s inp)) \<le> 65535 \<Longrightarrow>
   compensateAirData inp outp s =
     (FAULT_NONE,
      s\<lparr>mem := (mem s)(outp :=
          \<lparr>errorWord = errorWord (mem s inp),
           tempC = of_nat (unat (speed (mem s inp)) div unat (tempC (mem s inp))),
           speed = speed (mem s inp)\<rparr>)\<rparr>) \<and>
   unat (of_nat (unat (speed (mem s inp)) div unat (tempC (mem s inp))) :: 16 word)
     = unat (speed (mem s inp)) div unat (tempC (mem s inp))"
proof -
  assume nz: "tempC (mem s inp) \<noteq> 0"
    and fits: "unat (speed (mem s inp)) div unat (tempC (mem s inp)) \<le> 65535"
  have no_overflow: "\<not> 65535 < (speed (mem s inp) div ucast (tempC (mem s inp)) :: 32 word)"
    using fits by (simp add: range_check_as_nat)
  have written: "compensateAirData inp outp s =
     (FAULT_NONE,
      s\<lparr>mem := (mem s)(outp :=
          \<lparr>errorWord = errorWord (mem s inp),
           tempC = ucast (speed (mem s inp) div ucast (tempC (mem s inp)) :: 32 word),
           speed = speed (mem s inp)\<rparr>)\<rparr>)"
    using nz no_overflow
    by (cases "mem s outp"; cases "inp = outp")
       (simp_all add: compensateAirData_def Let_def FAULT_NONE_def
          set_tempC_def set_speed_def set_errorWord_def)
  show ?thesis
    using written narrow_quotient [OF fits] by simp
qed

theorem compensate_success_witness:
  "tempC (mem (set_speed FilteredAirData 100000
                 (set_tempC FilteredAirData 1003 initial_state)) FilteredAirData) \<noteq> 0 \<and>
   fst (compensateAirData FilteredAirData CompensatedAirData
         (set_speed FilteredAirData 100000 (set_tempC FilteredAirData 1003 initial_state)))
     = FAULT_NONE \<and>
   mem (snd (compensateAirData FilteredAirData CompensatedAirData
         (set_speed FilteredAirData 100000 (set_tempC FilteredAirData 1003 initial_state))))
       CompensatedAirData
     = \<lparr>errorWord = 0, tempC = 99, speed = 100000\<rparr>"
proof -
  let ?s = "set_speed FilteredAirData 100000 (set_tempC FilteredAirData 1003 initial_state)"
  have m: "mem ?s FilteredAirData = \<lparr>errorWord = 0, tempC = 1003, speed = 100000\<rparr>"
    by (simp add: set_speed_def set_tempC_def initial_state_def)
  have h1: "tempC (mem ?s FilteredAirData) \<noteq> 0"
    by (simp add: m)
  have h2: "unat (speed (mem ?s FilteredAirData)) div unat (tempC (mem ?s FilteredAirData))
              \<le> 65535"
    by (simp add: m)
  show ?thesis
    using h1 compensate_success [OF h1 h2, of CompensatedAirData] by (simp add: m)
qed

section \<open>The filter\<close>

text \<open>
  C5. For every state and every pair of pointers, \<open>filterAirData\<close> leaves in the output
  sample the error word and the speed of the input sample, and as temperature the input
  temperature times 1.00325 with the fraction dropped (the floor of the real product, not
  the nearest integer), stored in 16 bits; it returns \<open>FAULT_AIRFILTER\<close> when the error
  word of the input is not 0 and 0 otherwise. On the initial raw sample, of temperature
  1000, the filtered temperature is 1003.
\<close>

theorem filter_copies_and_scales:
  "mem (snd (filterAirData inp outp s)) outp =
     \<lparr>errorWord = errorWord (mem s inp),
      tempC = of_nat (nat \<lfloor>real (unat (tempC (mem s inp))) * 1.00325\<rfloor>),
      speed = speed (mem s inp)\<rparr> \<and>
   fst (filterAirData inp outp s) =
     (if errorWord (mem s inp) \<noteq> 0 then FAULT_AIRFILTER else FAULT_NONE) \<and>
   mem (snd (filterAirData RawAirData FilteredAirData initial_state)) FilteredAirData =
     \<lparr>errorWord = 1, tempC = 1003, speed = 100000\<rparr>"
  unfolding floor_scale
  by (simp add: filterAirData_eq scale_tempC_exact initial_state_def)

text \<open>
  C8. With distinct input and output samples, \<open>filterAirData\<close> does not change the input
  sample, and a second call on the state left by the first returns the same code and
  the same state, so the same filtered sample.
\<close>

theorem filter_twice_same:
  "inp \<noteq> outp \<Longrightarrow>
   mem (snd (filterAirData inp outp s)) inp = mem s inp \<and>
   filterAirData inp outp (snd (filterAirData inp outp s)) = filterAirData inp outp s \<and>
   mem (snd (filterAirData inp outp (snd (filterAirData inp outp s)))) outp =
     mem (snd (filterAirData inp outp s)) outp"
  by (simp add: filterAirData_eq)

theorem filter_twice_same_witness:
  "RawAirData \<noteq> FilteredAirData \<and>
   mem (snd (filterAirData RawAirData FilteredAirData initial_state)) RawAirData =
     \<lparr>errorWord = 1, tempC = 1000, speed = 100000\<rparr> \<and>
   filterAirData RawAirData FilteredAirData
       (snd (filterAirData RawAirData FilteredAirData initial_state)) =
     filterAirData RawAirData FilteredAirData initial_state"
proof -
  have h: "RawAirData \<noteq> FilteredAirData"
    by simp
  show ?thesis
    using filter_twice_same [OF h, of initial_state] by (simp add: initial_state_def)
qed

text \<open>
  C9. The temperature stored by \<open>filterAirData\<close> is the scaled value modulo 65536. The
  scaled value exceeds 65535 exactly for the raw temperatures from 65324 up; for 65535
  it is 65747 and 211 is stored. The value returned does not depend on the temperature:
  with error word 0 the call on temperature 65535 returns \<open>FAULT_NONE\<close>.
\<close>

theorem filter_scaling_unguarded:
  "unat (tempC (mem (snd (filterAirData inp outp s)) outp)) =
     scale_tempC (tempC (mem s inp)) mod 65536 \<and>
   scale_tempC (tempC (mem s inp)) = unat (tempC (mem s inp)) * 4013 div 4000 \<and>
   (65535 < scale_tempC (tempC (mem s inp))) = (65324 \<le> tempC (mem s inp)) \<and>
   fst (filterAirData inp outp (set_tempC inp v s)) = fst (filterAirData inp outp s) \<and>
   scale_tempC 65535 = 65747 \<and>
   filterAirData RawAirData FilteredAirData
       (set_errorWord RawAirData 0 (set_tempC RawAirData 65535 initial_state)) =
     (FAULT_NONE,
      (set_errorWord RawAirData 0 (set_tempC RawAirData 65535 initial_state))
        \<lparr>mem := (mem (set_errorWord RawAirData 0 (set_tempC RawAirData 65535 initial_state)))
           (FilteredAirData := \<lparr>errorWord = 0, tempC = 211, speed = 100000\<rparr>)\<rparr>)"
proof -
  have a: "unat (tempC (mem (snd (filterAirData inp outp s)) outp)) =
     scale_tempC (tempC (mem s inp)) mod 65536"
    by (simp add: filterAirData_eq unat_of_nat)
  have b: "(65535 < scale_tempC t) = (65324 \<le> t)" for t
  proof -
    have "(65535 < unat t * 4013 div 4000) = (65324 \<le> unat t)"
      by linarith
    then show ?thesis
      by (simp add: scale_tempC_exact word_le_nat_alt)
  qed
  have c: "fst (filterAirData inp outp (set_tempC inp v s)) = fst (filterAirData inp outp s)"
    by (simp add: filterAirData_eq set_tempC_def)
  have d: "scale_tempC 65535 = 65747"
    by (simp add: scale_tempC_exact)
  have w: "(65747 :: 16 word) = 211"
    by simp
  have e: "filterAirData RawAirData FilteredAirData
       (set_errorWord RawAirData 0 (set_tempC RawAirData 65535 initial_state)) =
     (FAULT_NONE,
      (set_errorWord RawAirData 0 (set_tempC RawAirData 65535 initial_state))
        \<lparr>mem := (mem (set_errorWord RawAirData 0 (set_tempC RawAirData 65535 initial_state)))
           (FilteredAirData := \<lparr>errorWord = 0, tempC = 211, speed = 100000\<rparr>)\<rparr>)"
    by (simp add: filterAirData_eq d w set_errorWord_def set_tempC_def initial_state_def)
  show ?thesis
    using a b c d e scale_tempC_exact by simp
qed

text \<open>
  C10. After every call of \<open>filterAirData\<close>, whatever it returns, \<open>AirDataProcessed\<close>
  is 1, so the next \<open>Tick_10ms\<close> does not call \<open>Fault\<close>. On the initial raw
  sample, whose error word is 1, with the sample marked as not yet processed, the call
  returns \<open>FAULT_AIRFILTER\<close> and leaves \<open>AirDataProcessed\<close> at 1.
\<close>

theorem filter_marks_consumed:
  "AirDataProcessed (snd (filterAirData inp outp s)) = 1 \<and>
   faults (Tick_10ms port8 port16 port32 (snd (filterAirData inp outp s))) = faults s \<and>
   fst (filterAirData RawAirData FilteredAirData (initial_state\<lparr>AirDataProcessed := 0\<rparr>))
     = FAULT_AIRFILTER \<and>
   AirDataProcessed
     (snd (filterAirData RawAirData FilteredAirData (initial_state\<lparr>AirDataProcessed := 0\<rparr>)))
     = 1"
  by (simp add: filterAirData_eq Tick_10ms_def Let_def set_errorWord_def set_tempC_def
        set_speed_def initial_state_def)

section \<open>The sampler\<close>

text \<open>The interrupt routine as one assignment to the state.\<close>

lemma Tick_10ms_eq:
  "Tick_10ms a b c s =
     (if AirDataProcessed s \<noteq> 1
      then s\<lparr>mem := (mem s)(RawAirData := \<lparr>errorWord = a, tempC = b, speed = c\<rparr>),
             faults := faults s @ [FAULT_OVERRUN]\<rparr>
      else s\<lparr>mem := (mem s)(RawAirData := \<lparr>errorWord = a, tempC = b, speed = c\<rparr>),
             AirDataProcessed := 0\<rparr>)"
  by (cases "mem s RawAirData")
     (simp add: Tick_10ms_def Let_def Fault_def set_errorWord_def set_tempC_def set_speed_def)

text \<open>While nothing marks the sample as processed, every invocation calls \<open>Fault\<close> once.\<close>

lemma ticks_overrun:
  "AirDataProcessed s \<noteq> 1 \<Longrightarrow>
   faults (ticks rs s) = faults s @ replicate (length rs) FAULT_OVERRUN"
proof (induction rs arbitrary: s)
  case Nil
  then show ?case by simp
next
  case (Cons r rs)
  obtain a b c where r: "r = (a, b, c)"
    by (cases r)
  have "AirDataProcessed (Tick_10ms a b c s) \<noteq> 1"
    using Cons.prems by (simp add: Tick_10ms_eq)
  then have "faults (ticks rs (Tick_10ms a b c s)) =
      faults (Tick_10ms a b c s) @ replicate (length rs) FAULT_OVERRUN"
    by (rule Cons.IH)
  then show ?case
    using Cons.prems by (simp add: r Tick_10ms_eq replicate_app_Cons_same)
qed

lemma ticks_faults:
  "faults (ticks rs s) =
     faults s @ replicate (if AirDataProcessed s \<noteq> 1 then length rs else length rs - 1)
       FAULT_OVERRUN"
proof (cases rs)
  case Nil
  then show ?thesis by simp
next
  case (Cons r rest)
  obtain a b c where r: "r = (a, b, c)"
    by (cases r)
  show ?thesis
  proof (cases "AirDataProcessed s \<noteq> 1")
    case True
    then show ?thesis by (simp add: ticks_overrun)
  next
    case False
    then have "AirDataProcessed (Tick_10ms a b c s) \<noteq> 1"
      by (simp add: Tick_10ms_eq)
    then have "faults (ticks rest (Tick_10ms a b c s)) =
        faults (Tick_10ms a b c s) @ replicate (length rest) FAULT_OVERRUN"
      by (rule ticks_overrun)
    then show ?thesis
      using False by (simp add: Cons r Tick_10ms_eq)
  qed
qed

text \<open>
  C6. An invocation of \<open>Tick_10ms\<close> that finds \<open>AirDataProcessed\<close> different from 1
  (the sample before is still to be processed) calls \<open>Fault\<close> with \<open>FAULT_OVERRUN\<close>
  once, and one that finds it 1 does not call \<open>Fault\<close>. In both cases the routine
  returns, the raw sample holds the three values read on this invocation, and after the
  next invocation it holds the three values read on that one. Over a sequence of
  invocations with no filter call in between, every invocation reports once, except the
  first when it found the sample processed.
\<close>

theorem overrun_reported_once:
  "faults (Tick_10ms port8 port16 port32 s) =
     (if AirDataProcessed s \<noteq> 1 then faults s @ [FAULT_OVERRUN] else faults s) \<and>
   mem (Tick_10ms port8 port16 port32 s) RawAirData =
     \<lparr>errorWord = port8, tempC = port16, speed = port32\<rparr> \<and>
   mem (Tick_10ms next8 next16 next32 (Tick_10ms port8 port16 port32 s)) RawAirData =
     \<lparr>errorWord = next8, tempC = next16, speed = next32\<rparr> \<and>
   faults (ticks rs s) =
     faults s @ replicate (if AirDataProcessed s \<noteq> 1 then length rs else length rs - 1)
       FAULT_OVERRUN"
  using ticks_faults [of rs s] by (simp add: Tick_10ms_eq)

text \<open>
  C7 as stated does not hold: the flag is written before the fields. From the initial
  state, where the sample is marked processed, an invocation reading 0, 2000 and 5 has
  marked the sample available after its first statement, when the raw sample still holds
  the old 1, 1000 and 100000; the new values are there when it returns.
\<close>

theorem tick_flag_before_fields_counterexample:
  "AirDataProcessed initial_state = 1 \<and>
   AirDataProcessed (Tick_10ms_trace 0 2000 5 initial_state ! 0) = 0 \<and>
   mem (Tick_10ms_trace 0 2000 5 initial_state ! 0) RawAirData =
     \<lparr>errorWord = 1, tempC = 1000, speed = 100000\<rparr> \<and>
   mem (last (Tick_10ms_trace 0 2000 5 initial_state)) RawAirData =
     \<lparr>errorWord = 0, tempC = 2000, speed = 5\<rparr>"
  by (simp add: Tick_10ms_trace_def Let_def initial_state_def set_errorWord_def
        set_tempC_def set_speed_def)

text \<open>
  C7, amended. An invocation of \<open>Tick_10ms\<close> that finds the sample processed
  (\<open>AirDataProcessed = 1\<close>) sets \<open>AirDataProcessed\<close> to 0, available, in its first
  statement, with the store still as it was; the flag stays 0 through the three writes;
  when the routine returns, the flag is 0, the raw sample holds the three values read,
  and \<open>Fault\<close> was not called.
\<close>

theorem tick_sets_flag_first:
  "AirDataProcessed s = 1 \<Longrightarrow>
   AirDataProcessed (Tick_10ms_trace port8 port16 port32 s ! 0) = 0 \<and>
   mem (Tick_10ms_trace port8 port16 port32 s ! 0) = mem s \<and>
   list_all (\<lambda>st. AirDataProcessed st = 0) (Tick_10ms_trace port8 port16 port32 s) \<and>
   last (Tick_10ms_trace port8 port16 port32 s) = Tick_10ms port8 port16 port32 s \<and>
   AirDataProcessed (Tick_10ms port8 port16 port32 s) = 0 \<and>
   mem (Tick_10ms port8 port16 port32 s) RawAirData =
     \<lparr>errorWord = port8, tempC = port16, speed = port32\<rparr> \<and>
   faults (Tick_10ms port8 port16 port32 s) = faults s"
proof -
  assume h: "AirDataProcessed s = 1"
  have last: "last (Tick_10ms_trace port8 port16 port32 s) = Tick_10ms port8 port16 port32 s"
    by (simp add: Tick_10ms_trace_def Tick_10ms_def Let_def)
  have trace: "AirDataProcessed (Tick_10ms_trace port8 port16 port32 s ! 0) = 0 \<and>
      mem (Tick_10ms_trace port8 port16 port32 s ! 0) = mem s \<and>
      list_all (\<lambda>st. AirDataProcessed st = 0) (Tick_10ms_trace port8 port16 port32 s)"
    using h
    by (simp add: Tick_10ms_trace_def Let_def set_errorWord_def set_tempC_def set_speed_def)
  show ?thesis
    using h last trace by (simp add: Tick_10ms_eq)
qed

theorem tick_sets_flag_first_witness:
  "AirDataProcessed initial_state = 1 \<and>
   AirDataProcessed (Tick_10ms_trace 0 2000 5 initial_state ! 0) = 0 \<and>
   mem (Tick_10ms_trace 0 2000 5 initial_state ! 0) = mem initial_state \<and>
   AirDataProcessed (Tick_10ms 0 2000 5 initial_state) = 0 \<and>
   mem (Tick_10ms 0 2000 5 initial_state) RawAirData =
     \<lparr>errorWord = 0, tempC = 2000, speed = 5\<rparr>"
proof -
  have h: "AirDataProcessed initial_state = 1"
    by (simp add: initial_state_def)
  show ?thesis
    using h tick_sets_flag_first [OF h, of 0 2000 5] by simp
qed

section \<open>The loop of main and its count of filter errors\<close>

text \<open>What the first part of a pass does to the locals and to the calls of \<open>Fault\<close>.\<close>

lemma loop_filter_eq:
  "err (loop_filter s) =
     (if errorWord (mem s RawAirData) \<noteq> 0 then FAULT_AIRFILTER else FAULT_NONE)"
  "FilterErrorCount (loop_filter s) =
     (if errorWord (mem s RawAirData) \<noteq> 0 then FilterErrorCount s + 1 else 0)"
  "faults (loop_filter s) =
     (if errorWord (mem s RawAirData) \<noteq> 0 \<and> 5 <s FilterErrorCount s + 1
      then faults s @ [FAULT_AIRFILTER] else faults s)"
  by (simp_all add: loop_filter_def filterAirData_eq Let_def Fault_def FAULT_AIRFILTER_def
        FAULT_NONE_def)

lemma loop_compensate_eq:
  "FilterErrorCount (loop_compensate s) = FilterErrorCount s"
  "count_list (faults (loop_compensate s)) FAULT_AIRFILTER =
     count_list (faults s) FAULT_AIRFILTER"
  by (simp_all add: loop_compensate_def compensateAirData_def Let_def Fault_def
        set_tempC_def set_speed_def set_errorWord_def
        FAULT_AIRFILTER_def FAULT_COMPENSATE_DIV_def FAULT_COMPENSATE_RANGE_def)

lemma ticks_keep:
  "FilterErrorCount (ticks rs s) = FilterErrorCount s"
  "count_list (faults (ticks rs s)) FAULT_AIRFILTER = count_list (faults s) FAULT_AIRFILTER"
proof -
  show "FilterErrorCount (ticks rs s) = FilterErrorCount s"
    by (induction rs s rule: ticks.induct) (simp_all add: Tick_10ms_eq)
  show "count_list (faults (ticks rs s)) FAULT_AIRFILTER = count_list (faults s) FAULT_AIRFILTER"
    by (simp add: ticks_faults FAULT_AIRFILTER_def FAULT_OVERRUN_def)
qed

lemma filter_failed:
  "(err (loop_filter s) \<noteq> 0) = (errorWord (mem s RawAirData) \<noteq> 0)"
  by (simp add: loop_filter_eq FAULT_AIRFILTER_def FAULT_NONE_def)

text \<open>One pass, in terms of what the filter returned in it.\<close>

lemma pass_count:
  "FilterErrorCount (loop_body (ticks irqs s)) =
     (if err (loop_filter (ticks irqs s)) \<noteq> 0 then FilterErrorCount s + 1 else 0)"
  by (simp add: loop_body_def loop_compensate_eq loop_filter_eq(2,3) filter_failed ticks_keep)

lemma pass_faults:
  "count_list (faults (loop_body (ticks irqs s))) FAULT_AIRFILTER =
     count_list (faults s) FAULT_AIRFILTER +
     (if err (loop_filter (ticks irqs s)) \<noteq> 0 \<and> 5 <s FilterErrorCount s + 1 then 1 else 0)"
  by (simp add: loop_body_def loop_compensate_eq loop_filter_eq(2,3) filter_failed ticks_keep)

lemma run_reports:
  "count_list (faults (run sch s)) FAULT_AIRFILTER =
     count_list (faults s) FAULT_AIRFILTER + reports (filter_results sch s) (FilterErrorCount s)"
proof (induction sch arbitrary: s)
  case Nil
  then show ?case by simp
next
  case (Cons irqs sch)
  show ?case
    by (simp add: Cons.IH pass_count pass_faults)
qed

lemma filter_results_take:
  "filter_results (take n sch) s = take n (filter_results sch s)"
  by (induction sch arbitrary: s n) (simp_all add: take_Cons split: nat.split)

lemma reports_streaks:
  "reports (take n (replicate 5 FAULT_AIRFILTER @ [FAULT_NONE])) 0 = 0"
  "reports (take (min n 5) (replicate 6 FAULT_AIRFILTER)) 0 = 0"
  "reports (replicate 6 FAULT_AIRFILTER) 0 = 1"
  by (simp_all add: eval_nat_numeral FAULT_AIRFILTER_def FAULT_NONE_def word_sless_alt
        take_Cons' min_def)

lemma raw_kept:
  "mem (loop_body s) RawAirData = mem s RawAirData"
  by (simp add: loop_body_def loop_compensate_def loop_filter_def filterAirData_eq
        compensateAirData_def Let_def Fault_def set_tempC_def set_speed_def set_errorWord_def)

lemma raw_after_tick:
  "mem (Tick_10ms a b c s) RawAirData = \<lparr>errorWord = a, tempC = b, speed = c\<rparr>"
  by (simp add: Tick_10ms_eq)

text \<open>
  C1. Take any schedule of passes of the loop and of interrupts between them, from a
  state with \<open>FilterErrorCount = 0\<close>. If the filter returns \<open>FAULT_AIRFILTER\<close> in five
  passes and then 0 in the sixth, \<open>Fault\<close> has been called with \<open>FAULT_AIRFILTER\<close> as
  many times after the six passes, and after any number of them, as before: never in
  between. If the filter returns \<open>FAULT_AIRFILTER\<close> in six passes, the number of such
  calls is unchanged after the first five passes (and after fewer) and one more after
  the sixth. In every pass \<open>FilterErrorCount\<close> grows by one when the filter returned
  an error and becomes 0 when it returned 0.
\<close>

theorem filter_error_debounce:
  "(FilterErrorCount s = 0 \<and>
    filter_results sch s = replicate 5 FAULT_AIRFILTER @ [FAULT_NONE] \<longrightarrow>
      count_list (faults (run (take n sch) s)) FAULT_AIRFILTER =
        count_list (faults s) FAULT_AIRFILTER \<and>
      count_list (faults (run sch s)) FAULT_AIRFILTER =
        count_list (faults s) FAULT_AIRFILTER) \<and>
   (FilterErrorCount s = 0 \<and> filter_results sch s = replicate 6 FAULT_AIRFILTER \<longrightarrow>
      count_list (faults (run (take (min n 5) sch) s)) FAULT_AIRFILTER =
        count_list (faults s) FAULT_AIRFILTER \<and>
      count_list (faults (run sch s)) FAULT_AIRFILTER =
        count_list (faults s) FAULT_AIRFILTER + 1) \<and>
   FilterErrorCount (loop_body (ticks irqs s)) =
     (if err (loop_filter (ticks irqs s)) \<noteq> 0 then FilterErrorCount s + 1 else 0)"
proof -
  have five: "count_list (faults (run (take n sch) s)) FAULT_AIRFILTER =
        count_list (faults s) FAULT_AIRFILTER \<and>
      count_list (faults (run sch s)) FAULT_AIRFILTER =
        count_list (faults s) FAULT_AIRFILTER"
    if "FilterErrorCount s = 0"
      and "filter_results sch s = replicate 5 FAULT_AIRFILTER @ [FAULT_NONE]"
    using that reports_streaks(1) [of n] reports_streaks(1) [of 6]
    by (simp add: run_reports filter_results_take)
  have six: "count_list (faults (run (take (min n 5) sch) s)) FAULT_AIRFILTER =
        count_list (faults s) FAULT_AIRFILTER \<and>
      count_list (faults (run sch s)) FAULT_AIRFILTER =
        count_list (faults s) FAULT_AIRFILTER + 1"
    if "FilterErrorCount s = 0" and "filter_results sch s = replicate 6 FAULT_AIRFILTER"
    using that reports_streaks(2) [of n] reports_streaks(3)
    by (simp add: run_reports filter_results_take)
  show ?thesis
    using five six pass_count by blast
qed

theorem filter_error_debounce_witness:
  "FilterErrorCount initial_state = 0 \<and>
   filter_results [[], [], [], [], [], [(0, 1000, 100000)]] initial_state =
     replicate 5 FAULT_AIRFILTER @ [FAULT_NONE] \<and>
   count_list (faults (run [[], [], [], [], [], [(0, 1000, 100000)]] initial_state))
     FAULT_AIRFILTER = 0 \<and>
   filter_results [[], [], [], [], [], []] initial_state = replicate 6 FAULT_AIRFILTER \<and>
   count_list (faults (run (take 5 [[], [], [], [], [], []]) initial_state))
     FAULT_AIRFILTER = 0 \<and>
   count_list (faults (run [[], [], [], [], [], []] initial_state)) FAULT_AIRFILTER = 1"
proof -
  have c: "FilterErrorCount initial_state = 0" and f: "faults initial_state = []"
    and r: "errorWord (mem initial_state RawAirData) = 1"
    by (simp_all add: initial_state_def)
  have five: "filter_results [[], [], [], [], [], [(0, 1000, 100000)]] initial_state =
     replicate 5 FAULT_AIRFILTER @ [FAULT_NONE]"
    by (simp add: loop_filter_eq(1) raw_kept raw_after_tick r eval_nat_numeral)
  have six: "filter_results [[], [], [], [], [], []] initial_state = replicate 6 FAULT_AIRFILTER"
    by (simp add: loop_filter_eq(1) raw_kept r eval_nat_numeral)
  show ?thesis
    using c five six
      filter_error_debounce [of initial_state "[[], [], [], [], [], [(0, 1000, 100000)]]" 6]
      filter_error_debounce [of initial_state "[[], [], [], [], [], []]" 5]
    by (simp add: f)
qed

end
